theory Spec2Isabelle
  imports Main "HOL-Library.Word"
begin

section \<open>Basic types\<close>

text \<open>
  A Go byte slice is a list of bytes; an Isabelle \<open>char\<close> is one byte, so \<open>[]byte("i")\<close>
  is the string \<open>''i''\<close> and a nil slice is the empty list.  \<open>time.Duration\<close> is a signed
  64-bit count of nanoseconds, read with \<open>sint\<close>.  A \<open>time.Time\<close> is an instant, modelled
  as the number of nanoseconds since the zero time \<open>time.Time{}\<close> (1 January of year 1),
  which is therefore \<open>0\<close>.  An \<open>int64\<close> count on which this package does no arithmetic
  is an integer.
\<close>

type_synonym bytes = string
type_synonym Duration = "64 word"
type_synonym Time = int
type_synonym NodeID = bytes

datatype error = Error string

section \<open>ratelimiter/peer.go\<close>

subsection \<open>Peers and their addresses\<close>

text \<open>
  \<open>net.Addr\<close> has two methods: \<open>Network()\<close>, the name of the network (\<open>"tcp"\<close>,
  \<open>"udp"\<close>, \<open>"pipe"\<close>), and \<open>String()\<close>, the address itself (\<open>"192.0.2.1:25"\<close>).
  A \<open>p2p.Peer\<close> is read through \<open>ID()\<close> and \<open>RemoteAddr()\<close> only.
\<close>

record Addr =
  Network :: string
  AddrString :: string

record Peer =
  ID :: NodeID
  RemoteAddr :: Addr

text \<open>
  Modelled from the spec: the declaration of \<open>Config\<close> is not among the sources; its
  three fields are those of section 3 of the specification, none of them negative (the
  tests build \<open>Interval\<close> from an unsigned 64-bit number of nanoseconds).
\<close>

record Config =
  Interval :: nat
  Capacity :: nat
  Quantum :: nat

definition IDMode :: int where
  "IDMode = 1"

definition IPMode :: int where
  "IPMode = 2"

text \<open>
  \<open>strings.Split(s, sep)\<close> for a separator of one character: the fields between the
  separators, always at least one field.
\<close>

fun Split :: "string \<Rightarrow> char \<Rightarrow> string list" where
  "Split [] sep = [[]]"
| "Split (c # cs) sep =
     (if c = sep then [] # Split cs sep
      else (case Split cs sep of
              [] \<Rightarrow> [[c]]
            | x # xs \<Rightarrow> (c # x) # xs))"

text \<open>
  \<open>byIP\<close>.  \<open>net.ParseIP\<close> belongs to the Go library and is a parameter: it maps a
  string to the bytes of the address it denotes, and to nil (the empty list) when the
  string is not an IP address.  Index \<open>[0]\<close> of the split is always in range.
\<close>

definition byIP :: "(string \<Rightarrow> bytes) \<Rightarrow> Peer \<Rightarrow> bytes" where
  "byIP ParseIP peer =
     (let addr = Network (RemoteAddr peer);
          ip = ParseIP (case Split addr CHR '':'' of x # _ \<Rightarrow> x | [] \<Rightarrow> [])
      in ip)"

definition byID :: "Peer \<Rightarrow> bytes" where
  "byID peer = ID peer"

type_synonym modeFunc = "Peer \<Rightarrow> bytes"

definition selectFunc :: "(string \<Rightarrow> bytes) \<Rightarrow> int \<Rightarrow> modeFunc" where
  "selectFunc ParseIP mode = (if mode = IPMode then byIP ParseIP else byID)"

subsection \<open>The limiter interface and the peer adapter\<close>

text \<open>
  \<open>Interface\<close> is the Go interface of a rate limiter keyed by identity bytes, with the
  four methods that \<open>PeerRateLimiter\<close> calls.  Its methods act on a state \<open>'s\<close>
  that they return updated.
\<close>

record 's Interface =
  Create :: "bytes \<Rightarrow> Config \<Rightarrow> 's \<Rightarrow> error option \<times> 's"
  Remove :: "bytes \<Rightarrow> Duration \<Rightarrow> 's \<Rightarrow> error option \<times> 's"
  TakeAvailable :: "bytes \<Rightarrow> int \<Rightarrow> 's \<Rightarrow> int \<times> 's"
  Available :: "bytes \<Rightarrow> 's \<Rightarrow> int \<times> 's"

record 's PeerRateLimiter =
  getID :: modeFunc
  ratelimiter :: "'s Interface"

definition NewPeerRateLimiter ::
  "(string \<Rightarrow> bytes) \<Rightarrow> int \<Rightarrow> 's Interface \<Rightarrow> 's PeerRateLimiter" where
  "NewPeerRateLimiter ParseIP mode rl =
     \<lparr>getID = selectFunc ParseIP mode, ratelimiter = rl\<rparr>"

definition PeerRateLimiter_Create ::
  "'s PeerRateLimiter \<Rightarrow> Peer \<Rightarrow> Config \<Rightarrow> 's \<Rightarrow> error option \<times> 's" where
  "PeerRateLimiter_Create r peer cfg = Create (ratelimiter r) (getID r peer) cfg"

definition PeerRateLimiter_Remove ::
  "'s PeerRateLimiter \<Rightarrow> Peer \<Rightarrow> Duration \<Rightarrow> 's \<Rightarrow> error option \<times> 's" where
  "PeerRateLimiter_Remove r peer duration = Remove (ratelimiter r) (getID r peer) duration"

definition PeerRateLimiter_TakeAvailable ::
  "'s PeerRateLimiter \<Rightarrow> Peer \<Rightarrow> int \<Rightarrow> 's \<Rightarrow> int \<times> 's" where
  "PeerRateLimiter_TakeAvailable r peer count =
     TakeAvailable (ratelimiter r) (getID r peer) count"

definition PeerRateLimiter_Available ::
  "'s PeerRateLimiter \<Rightarrow> Peer \<Rightarrow> 's \<Rightarrow> int \<times> 's" where
  "PeerRateLimiter_Available r peer = Available (ratelimiter r) (getID r peer)"

section \<open>The libp2p connection adapter\<close>

subsection \<open>Durations and instants\<close>

definition maxDuration :: int where
  "maxDuration = 2 ^ 63 - 1"

definition minDuration :: int where
  "minDuration = - (2 ^ 63)"

text \<open>
  \<open>t.Sub(u)\<close> of the Go library: the duration \<open>t - u\<close>, and the maximum (minimum)
  duration when \<open>t - u\<close> does not fit in a \<open>Duration\<close>.  \<open>time.Since(t)\<close> is
  \<open>time.Now().Sub(t)\<close>; the reading of the clock is the parameter \<open>now\<close>.
\<close>

definition Sub :: "Time \<Rightarrow> Time \<Rightarrow> int" where
  "Sub t u =
     (let d = t - u
      in if maxDuration < d then maxDuration
         else if d < minDuration then minDuration
         else d)"

definition Since :: "Time \<Rightarrow> Time \<Rightarrow> int" where
  "Since now t = Sub now t"

subsection \<open>Connections\<close>

text \<open>
  The field \<open>received\<close> is an \<open>atomic.Value\<close>: empty (\<open>None\<close>) until the first
  \<open>Store\<close>, and holding a \<open>time.Time\<close> afterwards, as \<open>Update\<close> is the only writer.
\<close>

record connection =
  conn_id :: NodeID
  received :: "Time option"
  period :: Duration

definition connection_ID :: "connection \<Rightarrow> NodeID" where
  "connection_ID c = conn_id c"

definition IsFlaky :: "Time \<Rightarrow> connection \<Rightarrow> bool" where
  "IsFlaky now c =
     (if period c = 0 then False
      else (case received c of
              None \<Rightarrow> False
            | Some rcv \<Rightarrow> sint (period c) < Since now rcv))"

definition Update :: "connection \<Rightarrow> Time \<Rightarrow> connection" where
  "Update c t = c\<lparr>received := Some t\<rparr>"

subsection \<open>Public keys and Handle\<close>

text \<open>
  The key types of the libp2p crypto package, and the absent key.  A secp256k1 key
  carries its curve point.  \<open>discover.PubkeyID\<close> belongs to go-ethereum and is a
  parameter.
\<close>

record ecdsa_PublicKey =
  X :: int
  Y :: int

datatype PubKey =
    Secp256k1PublicKey ecdsa_PublicKey
  | RsaPublicKey bytes
  | Ed25519PublicKey bytes
  | NilKey

fun isSecp256k1 :: "PubKey \<Rightarrow> bool" where
  "isSecp256k1 (Secp256k1PublicKey k) = True"
| "isSecp256k1 _ = False"

definition PubKeyToNodeID :: "(ecdsa_PublicKey \<Rightarrow> NodeID) \<Rightarrow> PubKey \<Rightarrow> error + NodeID" where
  "PubKeyToNodeID PubkeyID pubkey =
     (case pubkey of
        Secp256k1PublicKey seckey \<Rightarrow> Inr (PubkeyID seckey)
      | _ \<Rightarrow> Inl (Error ''public key is not on the secp256k1 curve''))"

text \<open>
  A \<open>net.Stream\<close> is read through \<open>Conn().RemotePublicKey()\<close>; the whisper
  \<open>Stream\<close> wraps it with the two timeouts (its RLP reader is built from the same
  stream).  \<open>HandleConnection\<close> is a method of the messaging engine and is a parameter
  acting on the engine's state \<open>'w\<close>.
\<close>

record net_Stream =
  RemotePublicKey :: PubKey

record Stream =
  s :: net_Stream
  rlp :: net_Stream
  readTimeout :: Duration
  writeTimeout :: Duration

definition Handle ::
  "(connection \<Rightarrow> Stream \<Rightarrow> 'w \<Rightarrow> error option \<times> 'w) \<Rightarrow> (ecdsa_PublicKey \<Rightarrow> NodeID) \<Rightarrow>
   'w \<Rightarrow> net_Stream \<Rightarrow> Duration \<Rightarrow> Duration \<Rightarrow> Duration \<Rightarrow> error option \<times> 'w" where
  "Handle HandleConnection PubkeyID w st prd rd wr =
     (case PubKeyToNodeID PubkeyID (RemotePublicKey st) of
        Inl err \<Rightarrow> (Some err, w)
      | Inr n \<Rightarrow>
          (let conn = \<lparr>conn_id = n, received = None, period = prd\<rparr>;
               conn = Update conn 0
           in HandleConnection conn
                \<lparr>s = st, rlp = st, readTimeout = rd, writeTimeout = wr\<rparr> w))"

section \<open>The token bucket and the persisted limiter\<close>

subsection \<open>Bucket Engine\<close>

text \<open>
  Modelled from the spec: the bucket engine (the token-bucket accounting behind
  \<open>NewPersisted\<close>) is not among the sources; the definitions follow sections 3 and 4.1
  of the specification.  A bucket holds its parameters, the balance, the instant of the
  last accounting update and an optional end of blacklisting.
\<close>

record Bucket =
  capacity :: nat
  quantum :: nat
  interval :: nat
  tokens :: int
  lastRefill :: Time
  blacklistedUntil :: "Time option"

text \<open>
  Modelled from the spec: a bucket is initialised at full capacity.
\<close>

definition NewBucket :: "Config \<Rightarrow> Time \<Rightarrow> Bucket" where
  "NewBucket cfg now =
     \<lparr>capacity = Capacity cfg, quantum = Quantum cfg, interval = Interval cfg,
      tokens = int (Capacity cfg), lastRefill = now, blacklistedUntil = None\<rparr>"

text \<open>
  Modelled from the spec: \<open>Refill\<close> adds the quantum once for every whole interval
  elapsed since the last refill, capped at the capacity, and advances the last refill by
  those whole intervals.  With a zero interval (a configuration error) no number of
  elapsed intervals exists and nothing is refilled.
\<close>

definition Refill :: "Bucket \<Rightarrow> Time \<Rightarrow> Bucket" where
  "Refill b now =
     (if interval b = 0 then b
      else (let elapsedIntervals = (now - lastRefill b) div int (interval b)
            in if 1 \<le> elapsedIntervals
               then b\<lparr>tokens := min (int (capacity b))
                                      (tokens b + elapsedIntervals * int (quantum b)),
                      lastRefill := lastRefill b + elapsedIntervals * int (interval b)\<rparr>
               else b))"

definition bucket_blacklisted :: "Bucket \<Rightarrow> Time \<Rightarrow> bool" where
  "bucket_blacklisted b now =
     (case blacklistedUntil b of None \<Rightarrow> False | Some until \<Rightarrow> now < until)"

text \<open>
  Modelled from the spec: the blacklist check precedes the refill; otherwise
  \<open>TakeAvailable\<close> refills, takes the minimum of the amount and the balance, and
  debits it; \<open>Available\<close> refills and returns the balance.
\<close>

definition Bucket_TakeAvailable :: "Bucket \<Rightarrow> int \<Rightarrow> Time \<Rightarrow> int \<times> Bucket" where
  "Bucket_TakeAvailable b amount now =
     (if bucket_blacklisted b now then (0, b)
      else (let b1 = Refill b now;
                taken = min amount (tokens b1)
            in (taken, b1\<lparr>tokens := tokens b1 - taken\<rparr>)))"

definition Bucket_Available :: "Bucket \<Rightarrow> Time \<Rightarrow> int \<times> Bucket" where
  "Bucket_Available b now =
     (if bucket_blacklisted b now then (0, b)
      else (let b1 = Refill b now in (tokens b1, b1)))"





subsection \<open>Persistence Store\<close>

text \<open>
  Modelled from the spec: the persistence layer (\<open>DBInterface\<close>, \<open>WithPrefix\<close>) is
  not among the sources; the definitions follow sections 4.2 and 6 of the specification.
  A database is named by a handle; the world holds the clock and the content of every
  database.  A key holds one record, either a live bucket or the expiry of a blacklist
  entry (the serialisation to bytes is left out).  A store is a database seen through a
  prefix: every key is prepended with it.
\<close>

type_synonym DBInterface = nat

datatype Record = BucketRecord Bucket | BlacklistRecord Time

record World =
  clock :: Time
  dbs :: "DBInterface \<Rightarrow> bytes \<Rightarrow> Record option"

record Store =
  store_db :: DBInterface
  store_prefix :: bytes

definition WithPrefix :: "DBInterface \<Rightarrow> bytes \<Rightarrow> Store" where
  "WithPrefix db prefix = \<lparr>store_db = db, store_prefix = prefix\<rparr>"

definition Get :: "Store \<Rightarrow> bytes \<Rightarrow> World \<Rightarrow> Record option" where
  "Get st key w = dbs w (store_db st) (store_prefix st @ key)"

definition Put :: "Store \<Rightarrow> bytes \<Rightarrow> Record \<Rightarrow> World \<Rightarrow> World" where
  "Put st key v w =
     w\<lparr>dbs := (dbs w)(store_db st := (dbs w (store_db st))(store_prefix st @ key := Some v))\<rparr>"

definition Delete :: "Store \<Rightarrow> bytes \<Rightarrow> World \<Rightarrow> World" where
  "Delete st key w =
     w\<lparr>dbs := (dbs w)(store_db st := (dbs w (store_db st))(store_prefix st @ key := None))\<rparr>"

subsection \<open>Rate Limiter\<close>

text \<open>
  Modelled from the spec: the persisted limiter (\<open>NewPersisted\<close> and its four
  operations) is not among the sources; the definitions follow sections 3 and 4.3 of the
  specification.  The Config of lazily created buckets is the parameter \<open>dflt\<close>.  The
  store never fails.  \<open>Remove\<close> deletes whatever record the identity has.
\<close>

definition blacklisted :: "Store \<Rightarrow> bytes \<Rightarrow> World \<Rightarrow> bool" where
  "blacklisted st ident w =
     (case Get st ident w of
        Some (BlacklistRecord expiry) \<Rightarrow> clock w < expiry
      | _ \<Rightarrow> False)"

definition load :: "Config \<Rightarrow> Store \<Rightarrow> bytes \<Rightarrow> World \<Rightarrow> Bucket" where
  "load dflt st ident w =
     (case Get st ident w of
        Some (BucketRecord b) \<Rightarrow> b
      | _ \<Rightarrow> NewBucket dflt (clock w))"

definition Persisted_Create ::
  "Store \<Rightarrow> bytes \<Rightarrow> Config \<Rightarrow> World \<Rightarrow> error option \<times> World" where
  "Persisted_Create st ident cfg w =
     (if blacklisted st ident w then (None, w)
      else (case Get st ident w of
              Some (BucketRecord b) \<Rightarrow> (None, w)
            | _ \<Rightarrow> (None, Put st ident (BucketRecord (NewBucket cfg (clock w))) w)))"

definition Persisted_Remove ::
  "Store \<Rightarrow> bytes \<Rightarrow> Duration \<Rightarrow> World \<Rightarrow> error option \<times> World" where
  "Persisted_Remove st ident duration w =
     (let w1 = Delete st ident w
      in if 0 < sint duration
         then (None, Put st ident (BlacklistRecord (clock w + sint duration)) w1)
         else (None, w1))"

definition Persisted_TakeAvailable ::
  "Config \<Rightarrow> Store \<Rightarrow> bytes \<Rightarrow> int \<Rightarrow> World \<Rightarrow> int \<times> World" where
  "Persisted_TakeAvailable dflt st ident amount w =
     (if blacklisted st ident w then (0, w)
      else (let (taken, b) = Bucket_TakeAvailable (load dflt st ident w) amount (clock w)
            in (taken, Put st ident (BucketRecord b) w)))"

definition Persisted_Available ::
  "Config \<Rightarrow> Store \<Rightarrow> bytes \<Rightarrow> World \<Rightarrow> int \<times> World" where
  "Persisted_Available dflt st ident w =
     (if blacklisted st ident w then (0, w)
      else (let (n, b) = Bucket_Available (load dflt st ident w) (clock w)
            in (n, Put st ident (BucketRecord b) w)))"

definition NewPersisted :: "Config \<Rightarrow> Store \<Rightarrow> World Interface" where
  "NewPersisted dflt st =
     \<lparr>Create = Persisted_Create st,
      Remove = Persisted_Remove st,
      TakeAvailable = Persisted_TakeAvailable dflt st,
      Available = Persisted_Available dflt st\<rparr>"

subsection \<open>The wrapper for whisper (ratelimiter/peer.go)\<close>

text \<open>
  \<open>ForWhisper\<close> builds both limiters over the same database handle.  Besides the
  three arguments of the Go function, the model takes what the absent parts fix: the
  Config of lazily created buckets and \<open>net.ParseIP\<close>.
\<close>

record 's Whisper =
  Ingress :: "'s PeerRateLimiter"
  Egress :: "'s PeerRateLimiter"
  WhisperConfig :: Config

definition ForWhisper ::
  "Config \<Rightarrow> (string \<Rightarrow> bytes) \<Rightarrow> int \<Rightarrow> DBInterface \<Rightarrow> Config \<Rightarrow> World Whisper" where
  "ForWhisper dflt ParseIP mode db ingress =
     \<lparr>Ingress = NewPeerRateLimiter ParseIP mode (NewPersisted dflt (WithPrefix db ''i'')),
      Egress = NewPeerRateLimiter ParseIP mode (NewPersisted dflt (WithPrefix db ''e'')),
      WhisperConfig = ingress\<rparr>"

subsection \<open>Calls on a limiter\<close>

text \<open>
  A call of one of the four operations of a limiter, its result, and a sequence of calls
  each made at its own reading of the clock.
\<close>

datatype Call =
    CallCreate bytes Config
  | CallRemove bytes Duration
  | CallTakeAvailable bytes int
  | CallAvailable bytes

datatype Result = Err "error option" | Count int

fun call :: "World Interface \<Rightarrow> Call \<Rightarrow> World \<Rightarrow> Result \<times> World" where
  "call rl (CallCreate ident cfg) w = (let (e, w') = Create rl ident cfg w in (Err e, w'))"
| "call rl (CallRemove ident d) w = (let (e, w') = Remove rl ident d w in (Err e, w'))"
| "call rl (CallTakeAvailable ident n) w =
     (let (k, w') = TakeAvailable rl ident n w in (Count k, w'))"
| "call rl (CallAvailable ident) w = (let (k, w') = Available rl ident w in (Count k, w'))"

fun run :: "World Interface \<Rightarrow> (Time \<times> Call) list \<Rightarrow> World \<Rightarrow> World" where
  "run rl [] w = w"
| "run rl ((t, c) # cs) w = run rl cs (snd (call rl c (w\<lparr>clock := t\<rparr>)))"

fun call_ident :: "Call \<Rightarrow> bytes" where
  "call_ident (CallCreate ident cfg) = ident"
| "call_ident (CallRemove ident d) = ident"
| "call_ident (CallTakeAvailable ident n) = ident"
| "call_ident (CallAvailable ident) = ident"

fun removes :: "bytes \<Rightarrow> Call \<Rightarrow> bool" where
  "removes ident (CallRemove ident' d) = (ident' = ident)"
| "removes ident _ = False"

definition within :: "bytes \<Rightarrow> Time \<Rightarrow> (Time \<times> Call) list \<Rightarrow> bool" where
  "within ident expiry cs = list_all (\<lambda>(t, c). t < expiry \<and> \<not> removes ident c) cs"

section \<open>Properties of ratelimiter/peer.go\<close>

lemma Split_nonempty: "Split str sep \<noteq> []"
  by (induction str) (auto split: list.splits)

text \<open>
  Claim C1.  The claim: \<open>byIP\<close> returns the peer's source IP address, port stripped.
  The code reads \<open>Network()\<close> of the remote address, the name of the network, where
  the address is \<open>String()\<close>.  For two TCP peers at different addresses, \<open>byIP\<close> is
  what \<open>net.ParseIP\<close> makes of the word \<open>tcp\<close> (nil, since it is no IP address):
  the observed address never reaches the result.
\<close>

theorem byIP_ignores_address:
  "byIP ParseIP \<lparr>ID = n, RemoteAddr = \<lparr>Network = ''tcp'', AddrString = ''203.0.113.7:30303''\<rparr>\<rparr>
     = ParseIP ''tcp''
   \<and> byIP ParseIP \<lparr>ID = n', RemoteAddr = \<lparr>Network = ''tcp'', AddrString = ''198.51.100.9:30303''\<rparr>\<rparr>
     = ParseIP ''tcp''"
  by (simp add: byIP_def)

text \<open>
  Claim C5.  Each of the four operations of a \<open>PeerRateLimiter\<close> returns what the
  same operation of the wrapped limiter returns on the identity bytes that the extractor
  gives for the peer: for the limiter built by \<open>NewPeerRateLimiter\<close> the extractor is
  the one selected by the mode, and for any \<open>PeerRateLimiter\<close> it is its \<open>getID\<close>.
  The adapter is its two fields, the extractor and the wrapped limiter, and nothing else.
\<close>

theorem PeerRateLimiter_delegates:
  "PeerRateLimiter_Create (NewPeerRateLimiter ParseIP mode rl) peer cfg st
     = Create rl (selectFunc ParseIP mode peer) cfg st
   \<and> PeerRateLimiter_Remove (NewPeerRateLimiter ParseIP mode rl) peer d st
     = Remove rl (selectFunc ParseIP mode peer) d st
   \<and> PeerRateLimiter_TakeAvailable (NewPeerRateLimiter ParseIP mode rl) peer n st
     = TakeAvailable rl (selectFunc ParseIP mode peer) n st
   \<and> PeerRateLimiter_Available (NewPeerRateLimiter ParseIP mode rl) peer st
     = Available rl (selectFunc ParseIP mode peer) st
   \<and> PeerRateLimiter_Create r peer cfg st = Create (ratelimiter r) (getID r peer) cfg st
   \<and> PeerRateLimiter_Remove r peer d st = Remove (ratelimiter r) (getID r peer) d st
   \<and> PeerRateLimiter_TakeAvailable r peer n st
     = TakeAvailable (ratelimiter r) (getID r peer) n st
   \<and> PeerRateLimiter_Available r peer st = Available (ratelimiter r) (getID r peer) st
   \<and> (r :: 's PeerRateLimiter) = \<lparr>getID = getID r, ratelimiter = ratelimiter r\<rparr>"
  by (simp add: PeerRateLimiter_Create_def PeerRateLimiter_Remove_def
      PeerRateLimiter_TakeAvailable_def PeerRateLimiter_Available_def NewPeerRateLimiter_def)

text \<open>
  Claim C6.  The extractor is a function of the mode alone: \<open>IPMode\<close> selects
  \<open>byIP\<close>, every other integer selects \<open>byID\<close>, and \<open>NewPeerRateLimiter\<close> stores
  the selected extractor in the limiter it builds.
\<close>

theorem selectFunc_mode:
  "selectFunc ParseIP IPMode = byIP ParseIP
   \<and> (mode \<noteq> IPMode \<longrightarrow> selectFunc ParseIP mode = byID)
   \<and> getID (NewPeerRateLimiter ParseIP mode rl) = selectFunc ParseIP mode"
  by (simp add: selectFunc_def NewPeerRateLimiter_def)

theorem selectFunc_mode_witness:
  "IDMode \<noteq> IPMode \<and> selectFunc (\<lambda>x::string. []) IDMode = byID
   \<and> (0::int) \<noteq> IPMode \<and> selectFunc (\<lambda>x::string. []) 0 = byID
   \<and> (7::int) \<noteq> IPMode \<and> selectFunc (\<lambda>x::string. []) 7 = byID
   \<and> getID (NewPeerRateLimiter (\<lambda>x::string. []) 7
         \<lparr>Create = \<lambda>ident cfg (n::nat). (None, n), Remove = \<lambda>ident d n. (None, n),
          TakeAvailable = \<lambda>ident k n. (k, n), Available = \<lambda>ident n. (0, n)\<rparr>) = byID"
  using selectFunc_mode [where ParseIP = "\<lambda>x. []" and mode = IDMode
      and rl = "\<lparr>Create = \<lambda>ident cfg (n::nat). (None, n), Remove = \<lambda>ident d n. (None, n),
          TakeAvailable = \<lambda>ident k n. (k, n), Available = \<lambda>ident n. (0, n)\<rparr>"]
    selectFunc_mode [where ParseIP = "\<lambda>x. []" and mode = 0
      and rl = "\<lparr>Create = \<lambda>ident cfg (n::nat). (None, n), Remove = \<lambda>ident d n. (None, n),
          TakeAvailable = \<lambda>ident k n. (k, n), Available = \<lambda>ident n. (0, n)\<rparr>"]
    selectFunc_mode [where ParseIP = "\<lambda>x. []" and mode = 7
      and rl = "\<lparr>Create = \<lambda>ident cfg (n::nat). (None, n), Remove = \<lambda>ident d n. (None, n),
          TakeAvailable = \<lambda>ident k n. (k, n), Available = \<lambda>ident n. (0, n)\<rparr>"]
  by (simp add: IPMode_def IDMode_def)

section \<open>Properties of the connection adapter\<close>

text \<open>
  Claim C7.  When the remote public key is not a secp256k1 key, \<open>Handle\<close> returns the
  error and the engine's state as it was, whatever \<open>HandleConnection\<close> is: the handler
  is not run.  When the key is a secp256k1 key, the identity is derived and \<open>Handle\<close>
  is the handler's run on the new connection.
\<close>

theorem Handle_rejects_other_keys:
  "(\<not> isSecp256k1 (RemotePublicKey st) \<longrightarrow>
      Handle HandleConnection PubkeyID w st prd rd wr
        = (Some (Error ''public key is not on the secp256k1 curve''), w))
   \<and> (RemotePublicKey st = Secp256k1PublicKey k \<longrightarrow>
      PubKeyToNodeID PubkeyID (RemotePublicKey st) = Inr (PubkeyID k)
      \<and> Handle HandleConnection PubkeyID w st prd rd wr
        = HandleConnection \<lparr>conn_id = PubkeyID k, received = Some 0, period = prd\<rparr>
            \<lparr>s = st, rlp = st, readTimeout = rd, writeTimeout = wr\<rparr> w)"
  by (cases "RemotePublicKey st") (simp_all add: Handle_def PubKeyToNodeID_def Update_def)

text \<open>
  With a handler that counts its runs, the count stays at \<open>0\<close> for an RSA key and is
  \<open>1\<close> for a secp256k1 key.
\<close>

theorem Handle_rejects_other_keys_witness:
  "\<not> isSecp256k1 (RemotePublicKey \<lparr>RemotePublicKey = RsaPublicKey ''k''\<rparr>)
   \<and> Handle (\<lambda>c strm n. (None, Suc n)) (\<lambda>k. ''id'') (0::nat)
         \<lparr>RemotePublicKey = RsaPublicKey ''k''\<rparr> 5 6 7
       = (Some (Error ''public key is not on the secp256k1 curve''), 0)
   \<and> Handle (\<lambda>c strm n. (None, Suc n)) (\<lambda>k. ''id'') (0::nat)
         \<lparr>RemotePublicKey = Secp256k1PublicKey \<lparr>X = 1, Y = 2\<rparr>\<rparr> 5 6 7
       = (None, 1)"
  using Handle_rejects_other_keys [where st = "\<lparr>RemotePublicKey = RsaPublicKey ''k''\<rparr>"
      and HandleConnection = "\<lambda>c strm n. (None, Suc n)" and PubkeyID = "\<lambda>k. ''id''"
      and w = "0::nat" and prd = 5 and rd = 6 and wr = 7]
    Handle_rejects_other_keys
      [where st = "\<lparr>RemotePublicKey = Secp256k1PublicKey \<lparr>X = 1, Y = 2\<rparr>\<rparr>"
      and k = "\<lparr>X = 1, Y = 2\<rparr>"
      and HandleConnection = "\<lambda>c strm n. (None, Suc n)" and PubkeyID = "\<lambda>k. ''id''"
      and w = "0::nat" and prd = 5 and rd = 6 and wr = 7]
  by simp

lemma sint_Duration_le: "sint (d :: Duration) \<le> maxDuration"
  using sint_lt [of d] by (simp add: maxDuration_def)

lemma sint_Duration_ge: "minDuration \<le> sint (d :: Duration)"
  using sint_ge [of d] by (simp add: minDuration_def)

lemma Since_gt_iff:
  "sint (d :: Duration) < maxDuration \<or> now - t \<le> maxDuration \<Longrightarrow>
   (sint d < Since now t) = (sint d < now - t)"
  using sint_Duration_le [of d] sint_Duration_ge [of d]
  by (auto simp add: Since_def Sub_def Let_def)

text \<open>
  Claim C8, amended.  For a connection with a last observed instant, \<open>IsFlaky\<close> is
  true exactly when the period is not zero and \<open>time.Since\<close> of that instant exceeds
  it, where \<open>time.Since\<close> is the elapsed time brought into the range of a
  \<open>Duration\<close>.  Whenever the period is below the maximum duration, or the elapsed time
  is at most the maximum duration, that is exactly: the period is not zero and the clock
  minus the last observed instant exceeds it.  With a zero period \<open>IsFlaky\<close> is false.
\<close>

theorem IsFlaky_saturating:
  "(received c = Some rcv \<longrightarrow>
      IsFlaky now c = (period c \<noteq> 0 \<and> sint (period c) < Since now rcv))
   \<and> (received c = Some rcv \<and> (sint (period c) < maxDuration \<or> now - rcv \<le> maxDuration) \<longrightarrow>
      IsFlaky now c = (period c \<noteq> 0 \<and> sint (period c) < now - rcv))
   \<and> (period c = 0 \<longrightarrow> \<not> IsFlaky now c)"
  using Since_gt_iff [of "period c" now rcv]
  by (auto simp add: IsFlaky_def)

theorem IsFlaky_saturating_witness:
  "received \<lparr>conn_id = ''n'', received = Some 1000, period = 50\<rparr> = Some 1000
   \<and> sint (period \<lparr>conn_id = ''n'', received = Some 1000, period = 50\<rparr>) < maxDuration
   \<and> IsFlaky 1051 \<lparr>conn_id = ''n'', received = Some 1000, period = 50\<rparr>
   \<and> \<not> IsFlaky 1050 \<lparr>conn_id = ''n'', received = Some 1000, period = 50\<rparr>
   \<and> period \<lparr>conn_id = ''n'', received = Some 1000, period = 0\<rparr> = 0
   \<and> \<not> IsFlaky 1051 \<lparr>conn_id = ''n'', received = Some 1000, period = 0\<rparr>"
  using IsFlaky_saturating [of "\<lparr>conn_id = ''n'', received = Some 1000, period = 50\<rparr>" 1000 1051]
    IsFlaky_saturating [of "\<lparr>conn_id = ''n'', received = Some 1000, period = 50\<rparr>" 1000 1050]
    IsFlaky_saturating [of "\<lparr>conn_id = ''n'', received = Some 1000, period = 0\<rparr>" 1000 1051]
  by (simp add: maxDuration_def minDuration_def Since_def Sub_def)

text \<open>
  The claim as stated fails for the maximum period: at a present-day reading of the
  clock, a connection last observed at the zero time is more than \<open>2^63 - 1\<close>
  nanoseconds old, which exceeds the period, and \<open>IsFlaky\<close> is false.
\<close>

theorem IsFlaky_exact_counterexample:
  "\<not> (IsFlaky 63900000000000000000
         \<lparr>conn_id = ''n'', received = Some 0, period = 9223372036854775807\<rparr>
       = (sint (9223372036854775807 :: Duration) < 63900000000000000000 - 0))"
  by (simp add: IsFlaky_def Since_def Sub_def maxDuration_def minDuration_def)

text \<open>
  Claim C10, amended.  The connection that \<open>Handle\<close> passes to the handler has the
  zero time as its last observed instant, and for every period that is neither zero nor
  the maximum duration, at every reading of the clock at least the maximum duration past
  the zero time (every present-day reading), \<open>IsFlaky\<close> is true of it.  The handler
  here records both about the connection it is given.
\<close>

theorem Handle_fresh_connection_flaky:
  "RemotePublicKey st = Secp256k1PublicKey k \<and> prd \<noteq> 0 \<and> sint prd < maxDuration
     \<and> maxDuration \<le> now \<longrightarrow>
   Handle (\<lambda>conn strm w. (None, (received conn, IsFlaky now conn))) PubkeyID w st prd rd wr
     = (None, (Some 0, True))"
  using sint_Duration_ge [of prd]
  by (auto simp add: Handle_def PubKeyToNodeID_def Update_def IsFlaky_def Since_def Sub_def
      Let_def maxDuration_def minDuration_def)

theorem Handle_fresh_connection_flaky_witness:
  "RemotePublicKey \<lparr>RemotePublicKey = Secp256k1PublicKey \<lparr>X = 1, Y = 2\<rparr>\<rparr>
     = Secp256k1PublicKey \<lparr>X = 1, Y = 2\<rparr>
   \<and> (60000000000 :: Duration) \<noteq> 0 \<and> sint (60000000000 :: Duration) < maxDuration
   \<and> maxDuration \<le> 63900000000000000000
   \<and> Handle (\<lambda>conn strm w. (None, (received conn, IsFlaky 63900000000000000000 conn)))
        (\<lambda>k. ''id'') (None, False) \<lparr>RemotePublicKey = Secp256k1PublicKey \<lparr>X = 1, Y = 2\<rparr>\<rparr>
        60000000000 5 6
      = (None, (Some 0, True))"
  using Handle_fresh_connection_flaky
      [where st = "\<lparr>RemotePublicKey = Secp256k1PublicKey \<lparr>X = 1, Y = 2\<rparr>\<rparr>"
      and k = "\<lparr>X = 1, Y = 2\<rparr>" and prd = 60000000000 and now = 63900000000000000000
      and PubkeyID = "\<lambda>k. ''id''" and w = "(None, False)" and rd = 5 and wr = 6]
  by (simp add: maxDuration_def)

text \<open>
  The claim as stated fails for the maximum period, which is not zero: the fresh
  connection is not flaky.
\<close>

theorem Handle_fresh_connection_counterexample:
  "(9223372036854775807 :: Duration) \<noteq> 0
   \<and> Handle (\<lambda>conn strm w. (None, (received conn, IsFlaky 63900000000000000000 conn)))
        (\<lambda>k. ''id'') (None, True) \<lparr>RemotePublicKey = Secp256k1PublicKey \<lparr>X = 1, Y = 2\<rparr>\<rparr>
        9223372036854775807 5 6
      = (None, (Some 0, False))"
  by (simp add: Handle_def PubKeyToNodeID_def Update_def IsFlaky_def Since_def Sub_def
      Let_def maxDuration_def minDuration_def)

section \<open>Properties of the bucket engine\<close>








section \<open>Properties of the persisted limiter\<close>

lemma Get_Put:
  "Get st' k' (Put st k v w) =
     (if store_db st' = store_db st \<and> store_prefix st' @ k' = store_prefix st @ k
      then Some v else Get st' k' w)"
  by (simp add: Get_def Put_def)

lemma Get_Delete:
  "Get st' k' (Delete st k w) =
     (if store_db st' = store_db st \<and> store_prefix st' @ k' = store_prefix st @ k
      then None else Get st' k' w)"
  by (simp add: Get_def Delete_def)

lemma Get_clock [simp]: "Get st k (w\<lparr>clock := t\<rparr>) = Get st k w"
  by (simp add: Get_def)

lemma clock_Put [simp]: "clock (Put st k v w) = clock w"
  by (simp add: Put_def)

lemma clock_Delete [simp]: "clock (Delete st k w) = clock w"
  by (simp add: Delete_def)

lemma call_frame:
  assumes "store_db st' \<noteq> store_db st \<or> store_prefix st' @ k' \<noteq> store_prefix st @ call_ident c"
  shows "Get st' k' (snd (call (NewPersisted dflt st) c w)) = Get st' k' w"
  using assms
  by (cases c)
    (auto simp add: NewPersisted_def Persisted_Create_def Persisted_Remove_def
      Persisted_TakeAvailable_def Persisted_Available_def Let_def Get_Put Get_Delete
      split: option.splits Record.splits prod.splits)


lemma call_determined:
  assumes "clock w1 = clock w2" and "Get st (call_ident c) w1 = Get st (call_ident c) w2"
  shows "fst (call (NewPersisted dflt st) c w1) = fst (call (NewPersisted dflt st) c w2)"
  using assms
  by (cases c)
    (auto simp add: NewPersisted_def Persisted_Create_def Persisted_Remove_def
      Persisted_TakeAvailable_def Persisted_Available_def Let_def blacklisted_def load_def
      split: option.splits Record.splits prod.splits)

lemma run_frame:
  assumes "\<And>k. store_db st' \<noteq> store_db st \<or> store_prefix st' @ k' \<noteq> store_prefix st @ k"
  shows "Get st' k' (run (NewPersisted dflt st) cs w) = Get st' k' w"
proof (induction cs arbitrary: w)
  case Nil
  then show ?case by simp
next
  case (Cons tc cs)
  obtain t c where tc: "tc = (t, c)" by (cases tc)
  have "Get st' k' (snd (call (NewPersisted dflt st) c (w\<lparr>clock := t\<rparr>))) = Get st' k' w"
    using call_frame [of st' st k' c dflt "w\<lparr>clock := t\<rparr>"] assms [of "call_ident c"]
    by simp
  with Cons.IH tc show ?case by simp
qed

lemma blacklist_kept:
  assumes "Get st ident w = Some (BlacklistRecord e)" and "clock w < e" and "\<not> removes ident c"
  shows "Get st ident (snd (call (NewPersisted dflt st) c w)) = Some (BlacklistRecord e)"
proof (cases "call_ident c = ident")
  case True
  with assms show ?thesis
    by (cases c)
      (simp_all add: NewPersisted_def Persisted_Create_def Persisted_TakeAvailable_def
        Persisted_Available_def blacklisted_def)
next
  case False
  then have "store_prefix st @ ident \<noteq> store_prefix st @ call_ident c" by simp
  with call_frame [of st st ident c dflt w] assms(1) show ?thesis by simp
qed

lemma blacklist_kept_run:
  "Get st ident w = Some (BlacklistRecord e) \<Longrightarrow> within ident e cs \<Longrightarrow>
   Get st ident (run (NewPersisted dflt st) cs w) = Some (BlacklistRecord e)"
proof (induction cs arbitrary: w)
  case Nil
  then show ?case by simp
next
  case (Cons tc cs)
  obtain t c where tc: "tc = (t, c)" by (cases tc)
  from Cons.prems(2) tc have now: "t < e" "\<not> removes ident c" and rest: "within ident e cs"
    by (simp_all add: within_def)
  have "Get st ident (snd (call (NewPersisted dflt st) c (w\<lparr>clock := t\<rparr>)))
          = Some (BlacklistRecord e)"
    using blacklist_kept [of st ident "w\<lparr>clock := t\<rparr>" e c dflt] Cons.prems(1) now by simp
  from Cons.IH [OF this rest] tc show ?case by simp
qed

lemma Remove_installs:
  "0 < sint d \<Longrightarrow>
   Get st ident (snd (call (NewPersisted dflt st) (CallRemove ident d) w))
     = Some (BlacklistRecord (clock w + sint d))"
  by (simp add: NewPersisted_def Persisted_Remove_def Let_def Get_Put)

text \<open>
  Claim C3.  Let \<open>Remove\<close> of an identity with a positive duration \<open>d\<close> be made
  at the instant \<open>t0\<close>, followed by any calls of the limiter made before the expiry
  \<open>t0 + d\<close>, none of them a \<open>Remove\<close> of that identity.  Then at every instant before
  the expiry \<open>TakeAvailable\<close> of the identity returns zero for every amount and changes
  nothing, and \<open>Create\<close> of the identity changes nothing; at every instant from the
  expiry on, \<open>Create\<close> stores a bucket at full capacity for the identity, and
  \<open>Available\<close> then returns that capacity.
\<close>

theorem blacklist_window:
  "0 < sint d \<and> within ident (t0 + sint d) cs
     \<and> w' = run (NewPersisted dflt st) cs
              (snd (Remove (NewPersisted dflt st) ident d (w\<lparr>clock := t0\<rparr>))) \<longrightarrow>
   (t < t0 + sint d \<longrightarrow>
      TakeAvailable (NewPersisted dflt st) ident amount (w'\<lparr>clock := t\<rparr>)
        = (0, w'\<lparr>clock := t\<rparr>)
      \<and> Create (NewPersisted dflt st) ident cfg (w'\<lparr>clock := t\<rparr>)
        = (None, w'\<lparr>clock := t\<rparr>))
   \<and> (t0 + sint d \<le> t \<longrightarrow>
      Get st ident (snd (Create (NewPersisted dflt st) ident cfg (w'\<lparr>clock := t\<rparr>)))
        = Some (BucketRecord (NewBucket cfg t))
      \<and> tokens (NewBucket cfg t) = int (capacity (NewBucket cfg t))
      \<and> capacity (NewBucket cfg t) = Capacity cfg
      \<and> fst (Available (NewPersisted dflt st) ident
           (snd (Create (NewPersisted dflt st) ident cfg (w'\<lparr>clock := t\<rparr>))))
        = int (Capacity cfg))"
proof (intro impI, elim conjE)
  assume d: "0 < sint d" and cs: "within ident (t0 + sint d) cs"
    and w': "w' = run (NewPersisted dflt st) cs
              (snd (Remove (NewPersisted dflt st) ident d (w\<lparr>clock := t0\<rparr>)))"
  have "Get st ident (snd (call (NewPersisted dflt st) (CallRemove ident d) (w\<lparr>clock := t0\<rparr>)))
          = Some (BlacklistRecord (t0 + sint d))"
    using Remove_installs [OF d, of st ident dflt "w\<lparr>clock := t0\<rparr>"] by simp
  then have "Get st ident (run (NewPersisted dflt st) cs
      (snd (call (NewPersisted dflt st) (CallRemove ident d) (w\<lparr>clock := t0\<rparr>))))
        = Some (BlacklistRecord (t0 + sint d))"
    using cs by (rule blacklist_kept_run)
  then have rec: "Get st ident w' = Some (BlacklistRecord (t0 + sint d))"
    using w' by (simp add: split_def Let_def)
  have inside: "TakeAvailable (NewPersisted dflt st) ident amount (w'\<lparr>clock := t\<rparr>)
        = (0, w'\<lparr>clock := t\<rparr>)
      \<and> Create (NewPersisted dflt st) ident cfg (w'\<lparr>clock := t\<rparr>)
        = (None, w'\<lparr>clock := t\<rparr>)" if "t < t0 + sint d"
    using rec that
    by (simp add: NewPersisted_def Persisted_TakeAvailable_def Persisted_Create_def
        blacklisted_def)
  have after: "Get st ident (snd (Create (NewPersisted dflt st) ident cfg (w'\<lparr>clock := t\<rparr>)))
        = Some (BucketRecord (NewBucket cfg t))
      \<and> tokens (NewBucket cfg t) = int (capacity (NewBucket cfg t))
      \<and> capacity (NewBucket cfg t) = Capacity cfg
      \<and> fst (Available (NewPersisted dflt st) ident
           (snd (Create (NewPersisted dflt st) ident cfg (w'\<lparr>clock := t\<rparr>))))
        = int (Capacity cfg)" if "t0 + sint d \<le> t"
    using rec that
    by (simp add: NewPersisted_def Persisted_Create_def Persisted_Available_def
        blacklisted_def load_def Get_Put NewBucket_def Bucket_Available_def
        bucket_blacklisted_def Refill_def Let_def)
  from inside after
  show "(t < t0 + sint d \<longrightarrow>
      TakeAvailable (NewPersisted dflt st) ident amount (w'\<lparr>clock := t\<rparr>)
        = (0, w'\<lparr>clock := t\<rparr>)
      \<and> Create (NewPersisted dflt st) ident cfg (w'\<lparr>clock := t\<rparr>)
        = (None, w'\<lparr>clock := t\<rparr>))
   \<and> (t0 + sint d \<le> t \<longrightarrow>
      Get st ident (snd (Create (NewPersisted dflt st) ident cfg (w'\<lparr>clock := t\<rparr>)))
        = Some (BucketRecord (NewBucket cfg t))
      \<and> tokens (NewBucket cfg t) = int (capacity (NewBucket cfg t))
      \<and> capacity (NewBucket cfg t) = Capacity cfg
      \<and> fst (Available (NewPersisted dflt st) ident
           (snd (Create (NewPersisted dflt st) ident cfg (w'\<lparr>clock := t\<rparr>))))
        = int (Capacity cfg))"
    by blast
qed


theorem blacklist_window_witness:
  "0 < sint (100 :: Duration)
   \<and> within ''p'' (1000 + sint (100 :: Duration))
        [(1010, CallTakeAvailable ''p'' 5),
         (1020, CallCreate ''p'' \<lparr>Interval = 60, Capacity = 512, Quantum = 64\<rparr>)]
   \<and> fst (TakeAvailable
        (NewPersisted \<lparr>Interval = 60, Capacity = 512, Quantum = 64\<rparr> (WithPrefix 0 ''i'')) ''p'' 7
        ((run (NewPersisted \<lparr>Interval = 60, Capacity = 512, Quantum = 64\<rparr> (WithPrefix 0 ''i''))
           [(1010, CallTakeAvailable ''p'' 5),
            (1020, CallCreate ''p'' \<lparr>Interval = 60, Capacity = 512, Quantum = 64\<rparr>)]
           (snd (Remove
              (NewPersisted \<lparr>Interval = 60, Capacity = 512, Quantum = 64\<rparr> (WithPrefix 0 ''i''))
              ''p'' 100 (\<lparr>clock = 0, dbs = \<lambda>db key. None\<rparr>\<lparr>clock := 1000\<rparr>))))
         \<lparr>clock := 1099\<rparr>)) = 0
   \<and> fst (Available
        (NewPersisted \<lparr>Interval = 60, Capacity = 512, Quantum = 64\<rparr> (WithPrefix 0 ''i'')) ''p''
        (snd (Create
           (NewPersisted \<lparr>Interval = 60, Capacity = 512, Quantum = 64\<rparr> (WithPrefix 0 ''i''))
           ''p'' \<lparr>Interval = 3600, Capacity = 10240, Quantum = 1024\<rparr>
           ((run (NewPersisted \<lparr>Interval = 60, Capacity = 512, Quantum = 64\<rparr> (WithPrefix 0 ''i''))
              [(1010, CallTakeAvailable ''p'' 5),
               (1020, CallCreate ''p'' \<lparr>Interval = 60, Capacity = 512, Quantum = 64\<rparr>)]
              (snd (Remove
                 (NewPersisted \<lparr>Interval = 60, Capacity = 512, Quantum = 64\<rparr> (WithPrefix 0 ''i''))
                 ''p'' 100 (\<lparr>clock = 0, dbs = \<lambda>db key. None\<rparr>\<lparr>clock := 1000\<rparr>))))
            \<lparr>clock := 1100\<rparr>)))) = 10240"
  using blacklist_window [where d = 100 and ident = "''p''" and ?t0.0 = 1000
      and cs = "[(1010, CallTakeAvailable ''p'' 5),
                 (1020, CallCreate ''p'' \<lparr>Interval = 60, Capacity = 512, Quantum = 64\<rparr>)]"
      and dflt = "\<lparr>Interval = 60, Capacity = 512, Quantum = 64\<rparr>" and st = "WithPrefix 0 ''i''"
      and w = "\<lparr>clock = 0, dbs = \<lambda>db key. None\<rparr>"
      and w' = "run (NewPersisted \<lparr>Interval = 60, Capacity = 512, Quantum = 64\<rparr> (WithPrefix 0 ''i''))
           [(1010, CallTakeAvailable ''p'' 5),
            (1020, CallCreate ''p'' \<lparr>Interval = 60, Capacity = 512, Quantum = 64\<rparr>)]
           (snd (Remove
              (NewPersisted \<lparr>Interval = 60, Capacity = 512, Quantum = 64\<rparr> (WithPrefix 0 ''i''))
              ''p'' 100 (\<lparr>clock = 0, dbs = \<lambda>db key. None\<rparr>\<lparr>clock := 1000\<rparr>)))"
      and t = 1099 and amount = 7 and cfg = "\<lparr>Interval = 3600, Capacity = 10240, Quantum = 1024\<rparr>"]
    blacklist_window [where d = 100 and ident = "''p''" and ?t0.0 = 1000
      and cs = "[(1010, CallTakeAvailable ''p'' 5),
                 (1020, CallCreate ''p'' \<lparr>Interval = 60, Capacity = 512, Quantum = 64\<rparr>)]"
      and dflt = "\<lparr>Interval = 60, Capacity = 512, Quantum = 64\<rparr>" and st = "WithPrefix 0 ''i''"
      and w = "\<lparr>clock = 0, dbs = \<lambda>db key. None\<rparr>"
      and w' = "run (NewPersisted \<lparr>Interval = 60, Capacity = 512, Quantum = 64\<rparr> (WithPrefix 0 ''i''))
           [(1010, CallTakeAvailable ''p'' 5),
            (1020, CallCreate ''p'' \<lparr>Interval = 60, Capacity = 512, Quantum = 64\<rparr>)]
           (snd (Remove
              (NewPersisted \<lparr>Interval = 60, Capacity = 512, Quantum = 64\<rparr> (WithPrefix 0 ''i''))
              ''p'' 100 (\<lparr>clock = 0, dbs = \<lambda>db key. None\<rparr>\<lparr>clock := 1000\<rparr>)))"
      and t = 1100 and amount = 7 and cfg = "\<lparr>Interval = 3600, Capacity = 10240, Quantum = 1024\<rparr>"]
  by (simp add: within_def)


section \<open>Properties of the wrapper for whisper\<close>

lemma run_clock_dbs:
  "dbs (run (NewPersisted dflt st) cs w) db' key = dbs w db' key"
  if "db' \<noteq> store_db st \<or> take (length (store_prefix st)) key \<noteq> store_prefix st"
proof -
  have "Get \<lparr>store_db = db', store_prefix = []\<rparr> key (run (NewPersisted dflt st) cs w)
          = Get \<lparr>store_db = db', store_prefix = []\<rparr> key w"
  proof (rule run_frame)
    fix k
    show "store_db \<lparr>store_db = db', store_prefix = []\<rparr> \<noteq> store_db st
          \<or> store_prefix \<lparr>store_db = db', store_prefix = []\<rparr> @ key \<noteq> store_prefix st @ k"
      using that by auto
  qed
  then show ?thesis by (simp add: Get_def)
qed

lemma isolated:
  assumes "\<And>k k'. store_prefix st' @ k' \<noteq> store_prefix st @ k"
  shows "fst (call (NewPersisted dflt st') c ((run (NewPersisted dflt st) cs w)\<lparr>clock := t\<rparr>))
           = fst (call (NewPersisted dflt st') c (w\<lparr>clock := t\<rparr>))"
proof (rule call_determined)
  show "clock ((run (NewPersisted dflt st) cs w)\<lparr>clock := t\<rparr>) = clock (w\<lparr>clock := t\<rparr>)"
    by simp
  have "Get st' (call_ident c) (run (NewPersisted dflt st) cs w) = Get st' (call_ident c) w"
    by (rule run_frame) (simp add: assms)
  then show "Get st' (call_ident c) ((run (NewPersisted dflt st) cs w)\<lparr>clock := t\<rparr>)
          = Get st' (call_ident c) (w\<lparr>clock := t\<rparr>)"
    by simp
qed

lemma NewPersisted_i_e_distinct:
  "NewPersisted dflt (WithPrefix db ''i'') \<noteq> NewPersisted dflt (WithPrefix db ''e'')"
proof
  assume "NewPersisted dflt (WithPrefix db ''i'') = NewPersisted dflt (WithPrefix db ''e'')"
  then have "Remove (NewPersisted dflt (WithPrefix db ''i'')) [] 1 \<lparr>clock = 0, dbs = \<lambda>d k. None\<rparr>
           = Remove (NewPersisted dflt (WithPrefix db ''e'')) [] 1 \<lparr>clock = 0, dbs = \<lambda>d k. None\<rparr>"
    by simp
  then have "Get (WithPrefix db ''i'') []
       (snd (Remove (NewPersisted dflt (WithPrefix db ''i'')) [] 1 \<lparr>clock = 0, dbs = \<lambda>d k. None\<rparr>))
     = Get (WithPrefix db ''i'') []
       (snd (Remove (NewPersisted dflt (WithPrefix db ''e'')) [] 1 \<lparr>clock = 0, dbs = \<lambda>d k. None\<rparr>))"
    by simp
  then show False
    by (simp add: NewPersisted_def Persisted_Remove_def Let_def Get_Put Get_Delete WithPrefix_def)
      (simp add: Get_def)
qed

text \<open>
  Claim C4.  The wrapper built by \<open>ForWhisper\<close> holds two limiters, distinct from
  each other, both persisted in the database given: the ingress limiter through the store
  of prefix \<open>i\<close> and the egress limiter through the store of prefix \<open>e\<close>.  Whatever
  calls are made on one of them, for any identities and at any instants, every call on
  the other returns what it returns without them; the calls on the ingress limiter change
  no key outside prefix \<open>i\<close> of that database, and those on the egress limiter no key
  outside prefix \<open>e\<close>.
\<close>

theorem ForWhisper_namespaces:
  "ratelimiter (Ingress (ForWhisper dflt ParseIP mode db cfg))
     = NewPersisted dflt (WithPrefix db ''i'')
   \<and> ratelimiter (Egress (ForWhisper dflt ParseIP mode db cfg))
     = NewPersisted dflt (WithPrefix db ''e'')
   \<and> ratelimiter (Ingress (ForWhisper dflt ParseIP mode db cfg))
     \<noteq> ratelimiter (Egress (ForWhisper dflt ParseIP mode db cfg))
   \<and> fst (call (ratelimiter (Egress (ForWhisper dflt ParseIP mode db cfg))) c
        ((run (ratelimiter (Ingress (ForWhisper dflt ParseIP mode db cfg))) cs w)\<lparr>clock := t\<rparr>))
     = fst (call (ratelimiter (Egress (ForWhisper dflt ParseIP mode db cfg))) c (w\<lparr>clock := t\<rparr>))
   \<and> fst (call (ratelimiter (Ingress (ForWhisper dflt ParseIP mode db cfg))) c
        ((run (ratelimiter (Egress (ForWhisper dflt ParseIP mode db cfg))) cs w)\<lparr>clock := t\<rparr>))
     = fst (call (ratelimiter (Ingress (ForWhisper dflt ParseIP mode db cfg))) c (w\<lparr>clock := t\<rparr>))
   \<and> (db' \<noteq> db \<or> take 1 key \<noteq> ''i'' \<longrightarrow>
        dbs (run (ratelimiter (Ingress (ForWhisper dflt ParseIP mode db cfg))) cs w) db' key
          = dbs w db' key)
   \<and> (db' \<noteq> db \<or> take 1 key \<noteq> ''e'' \<longrightarrow>
        dbs (run (ratelimiter (Egress (ForWhisper dflt ParseIP mode db cfg))) cs w) db' key
          = dbs w db' key)"
proof -
  have I: "ratelimiter (Ingress (ForWhisper dflt ParseIP mode db cfg))
     = NewPersisted dflt (WithPrefix db ''i'')"
    and E: "ratelimiter (Egress (ForWhisper dflt ParseIP mode db cfg))
     = NewPersisted dflt (WithPrefix db ''e'')"
    by (simp_all add: ForWhisper_def NewPeerRateLimiter_def)
  have "fst (call (NewPersisted dflt (WithPrefix db ''e'')) c
        ((run (NewPersisted dflt (WithPrefix db ''i'')) cs w)\<lparr>clock := t\<rparr>))
     = fst (call (NewPersisted dflt (WithPrefix db ''e'')) c (w\<lparr>clock := t\<rparr>))"
    by (rule isolated) (simp add: WithPrefix_def)
  moreover have "fst (call (NewPersisted dflt (WithPrefix db ''i'')) c
        ((run (NewPersisted dflt (WithPrefix db ''e'')) cs w)\<lparr>clock := t\<rparr>))
     = fst (call (NewPersisted dflt (WithPrefix db ''i'')) c (w\<lparr>clock := t\<rparr>))"
    by (rule isolated) (simp add: WithPrefix_def)
  moreover have "dbs (run (NewPersisted dflt (WithPrefix db ''i'')) cs w) db' key = dbs w db' key"
    if "db' \<noteq> db \<or> take 1 key \<noteq> ''i''"
    using that by (intro run_clock_dbs) (simp add: WithPrefix_def)
  moreover have "dbs (run (NewPersisted dflt (WithPrefix db ''e'')) cs w) db' key = dbs w db' key"
    if "db' \<noteq> db \<or> take 1 key \<noteq> ''e''"
    using that by (intro run_clock_dbs) (simp add: WithPrefix_def)
  ultimately show ?thesis
    using NewPersisted_i_e_distinct [of dflt db] unfolding I E by blast
qed

text \<open>
  After the ingress limiter has taken 100 tokens from the identity \<open>p\<close>, the egress
  limiter still reports the full 512 for \<open>p\<close> and the ingress limiter 412.
\<close>

theorem ForWhisper_namespaces_witness:
  "fst (call (ratelimiter (Egress (ForWhisper \<lparr>Interval = 60, Capacity = 512, Quantum = 64\<rparr>
          (\<lambda>x::string. []) IDMode 0 \<lparr>Interval = 60, Capacity = 512, Quantum = 64\<rparr>)))
        (CallAvailable ''p'')
        ((run (ratelimiter (Ingress (ForWhisper \<lparr>Interval = 60, Capacity = 512, Quantum = 64\<rparr>
            (\<lambda>x::string. []) IDMode 0 \<lparr>Interval = 60, Capacity = 512, Quantum = 64\<rparr>)))
           [(5, CallTakeAvailable ''p'' 100)] \<lparr>clock = 0, dbs = \<lambda>db key. None\<rparr>)\<lparr>clock := 6\<rparr>))
     = Count 512
   \<and> fst (call (ratelimiter (Ingress (ForWhisper \<lparr>Interval = 60, Capacity = 512, Quantum = 64\<rparr>
          (\<lambda>x::string. []) IDMode 0 \<lparr>Interval = 60, Capacity = 512, Quantum = 64\<rparr>)))
        (CallAvailable ''p'')
        ((run (ratelimiter (Ingress (ForWhisper \<lparr>Interval = 60, Capacity = 512, Quantum = 64\<rparr>
            (\<lambda>x::string. []) IDMode 0 \<lparr>Interval = 60, Capacity = 512, Quantum = 64\<rparr>)))
           [(5, CallTakeAvailable ''p'' 100)] \<lparr>clock = 0, dbs = \<lambda>db key. None\<rparr>)\<lparr>clock := 6\<rparr>))
     = Count 412
   \<and> take 1 ''ep'' \<noteq> ''i''
   \<and> dbs (run (ratelimiter (Ingress (ForWhisper \<lparr>Interval = 60, Capacity = 512, Quantum = 64\<rparr>
            (\<lambda>x::string. []) IDMode 0 \<lparr>Interval = 60, Capacity = 512, Quantum = 64\<rparr>)))
           [(5, CallTakeAvailable ''p'' 100)] \<lparr>clock = 0, dbs = \<lambda>db key. None\<rparr>) 0 ''ep'' = None
   \<and> take 1 ''ip'' \<noteq> ''e''
   \<and> dbs (run (ratelimiter (Egress (ForWhisper \<lparr>Interval = 60, Capacity = 512, Quantum = 64\<rparr>
            (\<lambda>x::string. []) IDMode 0 \<lparr>Interval = 60, Capacity = 512, Quantum = 64\<rparr>)))
           [(5, CallTakeAvailable ''p'' 100)] \<lparr>clock = 0, dbs = \<lambda>db key. None\<rparr>) 0 ''ip'' = None"
  using ForWhisper_namespaces [where dflt = "\<lparr>Interval = 60, Capacity = 512, Quantum = 64\<rparr>"
      and ParseIP = "\<lambda>x. []" and mode = IDMode and db = 0
      and cfg = "\<lparr>Interval = 60, Capacity = 512, Quantum = 64\<rparr>"
      and c = "CallAvailable ''p''" and cs = "[(5, CallTakeAvailable ''p'' 100)]"
      and w = "\<lparr>clock = 0, dbs = \<lambda>db key. None\<rparr>" and t = 6 and db' = 0 and key = "''ep''"]
    ForWhisper_namespaces [where dflt = "\<lparr>Interval = 60, Capacity = 512, Quantum = 64\<rparr>"
      and ParseIP = "\<lambda>x. []" and mode = IDMode and db = 0
      and cfg = "\<lparr>Interval = 60, Capacity = 512, Quantum = 64\<rparr>"
      and c = "CallAvailable ''p''" and cs = "[(5, CallTakeAvailable ''p'' 100)]"
      and w = "\<lparr>clock = 0, dbs = \<lambda>db key. None\<rparr>" and t = 6 and db' = 0 and key = "''ip''"]
  by (simp add: ForWhisper_def NewPeerRateLimiter_def NewPersisted_def WithPrefix_def
      Persisted_TakeAvailable_def Persisted_Available_def blacklisted_def load_def Get_def Put_def
      NewBucket_def Bucket_TakeAvailable_def Bucket_Available_def bucket_blacklisted_def
      Refill_def Let_def)

text \<open>
  Claim C9, amended.  \<open>ForWhisper\<close> takes one Config, the ingress one, and keeps it
  as the Config of the wrapper.  Neither limiter is built from it: both are built from
  the mode and the database alone, so that the wrappers built with two different Configs
  have the same ingress limiter and the same egress limiter.
\<close>

theorem ForWhisper_single_config:
  "WhisperConfig (ForWhisper dflt ParseIP mode db ingress) = ingress
   \<and> Ingress (ForWhisper dflt ParseIP mode db ingress)
     = Ingress (ForWhisper dflt ParseIP mode db other)
   \<and> Egress (ForWhisper dflt ParseIP mode db ingress)
     = Egress (ForWhisper dflt ParseIP mode db other)
   \<and> Ingress (ForWhisper dflt ParseIP mode db ingress)
     = NewPeerRateLimiter ParseIP mode (NewPersisted dflt (WithPrefix db ''i''))
   \<and> Egress (ForWhisper dflt ParseIP mode db ingress)
     = NewPeerRateLimiter ParseIP mode (NewPersisted dflt (WithPrefix db ''e''))"
  by (simp add: ForWhisper_def)

text \<open>
  The claim as stated fails: two different Configs give the same two limiters.
\<close>

theorem ForWhisper_configs_counterexample:
  "\<lparr>Interval = 3600000000000, Capacity = 10240, Quantum = 1024\<rparr>
     \<noteq> \<lparr>Interval = 60000000000, Capacity = 512, Quantum = 64\<rparr>
   \<and> Ingress (ForWhisper \<lparr>Interval = 1, Capacity = 1, Quantum = 1\<rparr> (\<lambda>x::string. []) IDMode 0
        \<lparr>Interval = 3600000000000, Capacity = 10240, Quantum = 1024\<rparr>)
     = Ingress (ForWhisper \<lparr>Interval = 1, Capacity = 1, Quantum = 1\<rparr> (\<lambda>x::string. []) IDMode 0
        \<lparr>Interval = 60000000000, Capacity = 512, Quantum = 64\<rparr>)
   \<and> Egress (ForWhisper \<lparr>Interval = 1, Capacity = 1, Quantum = 1\<rparr> (\<lambda>x::string. []) IDMode 0
        \<lparr>Interval = 3600000000000, Capacity = 10240, Quantum = 1024\<rparr>)
     = Egress (ForWhisper \<lparr>Interval = 1, Capacity = 1, Quantum = 1\<rparr> (\<lambda>x::string. []) IDMode 0
        \<lparr>Interval = 60000000000, Capacity = 512, Quantum = 64\<rparr>)"
  by (simp add: ForWhisper_def)

end
